theory Spec2Isabelle
  imports Complex_Main "HOL-Library.Sublist"
begin

section \<open>Structure superimposition (\<open>structure/superimpose.py\<close>)\<close>

text \<open>
  The module superimposes atom coordinate sets with the Kabsch algorithm. Coordinates
  are numpy arrays of floats; here every number is an exact \<^typ>\<open>real\<close>, so rounding is
  outside the model. \<open>np.linalg.svd\<close> belongs to numpy, not to the repository: the
  functions take it as the parameter \<open>svd\<close>, and theorems that depend on what it returns
  say so through \<open>svd_spec\<close>.
\<close>

subsection \<open>Arrays: points, 3x3 matrices, coordinate arrays\<close>

type_synonym vec3 = "real \<times> real \<times> real"

text \<open>A 3x3 array, stored by rows.\<close>

type_synonym mat3 = "vec3 \<times> vec3 \<times> vec3"

text \<open>An \<open>(n, 3)\<close> coordinate array: one point per atom.\<close>

type_synonym coords = "vec3 list"

fun vadd :: "vec3 \<Rightarrow> vec3 \<Rightarrow> vec3" where
  "vadd (a, b, c) (d, e, f) = (a + d, b + e, c + f)"

fun vsub :: "vec3 \<Rightarrow> vec3 \<Rightarrow> vec3" where
  "vsub (a, b, c) (d, e, f) = (a - d, b - e, c - f)"

fun vneg :: "vec3 \<Rightarrow> vec3" where
  "vneg (a, b, c) = (- a, - b, - c)"

fun dot3 :: "vec3 \<Rightarrow> vec3 \<Rightarrow> real" where
  "dot3 (a, b, c) (d, e, f) = a * d + b * e + c * f"

fun transpose3 :: "mat3 \<Rightarrow> mat3" where
  "transpose3 ((a, b, c), (d, e, f), (g, h, i)) = ((a, d, g), (b, e, h), (c, f, i))"

text \<open>\<open>np.dot(p, m)\<close> for a point \<open>p\<close> (a row) and a 3x3 array \<open>m\<close>.\<close>

fun vec_mat :: "vec3 \<Rightarrow> mat3 \<Rightarrow> vec3" where
  "vec_mat (x, y, z) ((a, b, c), (d, e, f), (g, h, i)) =
     (x * a + y * d + z * g, x * b + y * e + z * h, x * c + y * f + z * i)"

text \<open>\<open>np.dot(m, n)\<close> for two 3x3 arrays: each row of \<open>m\<close> times \<open>n\<close>.\<close>

fun mat_mul :: "mat3 \<Rightarrow> mat3 \<Rightarrow> mat3" where
  "mat_mul (r1, r2, r3) n = (vec_mat r1 n, vec_mat r2 n, vec_mat r3 n)"

text \<open>\<open>np.linalg.det\<close> of a 3x3 array.\<close>

fun det3 :: "mat3 \<Rightarrow> real" where
  "det3 ((a, b, c), (d, e, f), (g, h, i)) =
     a * (e * i - f * h) - b * (d * i - f * g) + c * (d * h - e * g)"

text \<open>The quadratic form \<open>x m x\<^sup>T\<close> of a 3x3 array.\<close>

definition qform :: "mat3 \<Rightarrow> vec3 \<Rightarrow> real" where
  "qform m x = dot3 (vec_mat x m) x"

definition ident3 :: mat3 where
  "ident3 = ((1, 0, 0), (0, 1, 0), (0, 0, 1))"

definition zero3 :: mat3 where
  "zero3 = ((0, 0, 0), (0, 0, 0), (0, 0, 0))"

fun diag3 :: "vec3 \<Rightarrow> mat3" where
  "diag3 (a, b, c) = ((a, 0, 0), (0, b, 0), (0, 0, c))"

fun madd :: "mat3 \<Rightarrow> mat3 \<Rightarrow> mat3" where
  "madd (r1, r2, r3) (q1, q2, q3) = (vadd r1 q1, vadd r2 q2, vadd r3 q3)"

fun outer :: "vec3 \<Rightarrow> vec3 \<Rightarrow> mat3" where
  "outer (a, b, c) q = ((a * fst q, a * fst (snd q), a * snd (snd q)),
                        (b * fst q, b * fst (snd q), b * snd (snd q)),
                        (c * fst q, c * fst (snd q), c * snd (snd q)))"

text \<open>
  \<open>np.dot(y.T, x)\<close> for two \<open>(n, 3)\<close> arrays of the same length: entry \<open>(i, j)\<close> is the sum
  over the atoms \<open>k\<close> of \<open>y[k][i] * x[k][j]\<close>, that is the sum of the outer products of
  corresponding points. For \<open>n = 0\<close> numpy gives the zero array.
\<close>

fun dot_T :: "coords \<Rightarrow> coords \<Rightarrow> mat3" where
  "dot_T (p # ps) (q # qs) = madd (outer p q) (dot_T ps qs)"
| "dot_T _ _ = zero3"

text \<open>\<open>np.dot(c, r)\<close> for an \<open>(n, 3)\<close> array \<open>c\<close> and a 3x3 array \<open>r\<close>: every row times \<open>r\<close>.\<close>

definition dot_rows :: "coords \<Rightarrow> mat3 \<Rightarrow> coords" where
  "dot_rows c r = map (\<lambda>p. vec_mat p r) c"

text \<open>Broadcast \<open>c - v\<close> and \<open>c + v\<close> of a point \<open>v\<close> over an \<open>(n, 3)\<close> array.\<close>

definition sub_rows :: "coords \<Rightarrow> vec3 \<Rightarrow> coords" where
  "sub_rows c v = map (\<lambda>p. vsub p v) c"

definition add_rows :: "coords \<Rightarrow> vec3 \<Rightarrow> coords" where
  "add_rows c v = map (\<lambda>p. vadd p v) c"

subsection \<open>Exceptions\<close>

text \<open>
  The exceptions the module can raise. \<open>ValueError\<close> is raised by \<open>superimpose\<close> itself,
  with its message. \<open>NameError\<close> is what Python raises when an unbound global name is
  evaluated; it carries the name. \<open>IndexError\<close> is raised by numpy's indexing.
\<close>

datatype error = ValueError string | NameError string | IndexError string

subsection \<open>Atom arrays\<close>

text \<open>
  \<open>AtomArray\<close> (module \<open>atoms\<close>, not among the sources) holds the coordinate array
  \<open>coord\<close> and one annotation array per annotation category; \<open>superimpose.py\<close> reads
  \<open>coord\<close> and \<open>atom_name\<close> only, the other annotation arrays are the field \<open>annot\<close>.
\<close>

record 'a AtomArray =
  coord :: coords
  atom_name :: "string list"
  annot :: 'a

text \<open>The class keeps every annotation array as long as \<open>coord\<close>.\<close>

definition wf_AtomArray :: "'a AtomArray \<Rightarrow> bool" where
  "wf_AtomArray a = (length (atom_name a) = length (coord a))"

text \<open>
  Modelled from the spec: \<open>AtomArray.copy\<close> is in \<open>atoms.py\<close>, which is not among the
  sources. The spec: "a copy-construction operation that duplicates a coordinate set for
  independent mutation". On values a duplicate is the same value.
\<close>

definition copy :: "'a AtomArray \<Rightarrow> 'a AtomArray" where
  "copy a = \<lparr>coord = coord a, atom_name = atom_name a, annot = annot a\<rparr>"

text \<open>
  Modelled from the spec: \<open>centroid\<close> is in \<open>geometry.py\<close>, which is not among the
  sources. The spec: "Centroid: arithmetic mean position of a point set". The mean of an
  empty array is \<open>nan\<close> in numpy and \<open>0\<close> here (\<open>x / 0 = 0\<close> in HOL); the spec's coordinate
  sets have at least one point.
\<close>

definition mean3 :: "coords \<Rightarrow> vec3" where
  "mean3 c = (sum_list (map fst c) / real (length c),
              sum_list (map (\<lambda>p. fst (snd p)) c) / real (length c),
              sum_list (map (\<lambda>p. snd (snd p)) c) / real (length c))"

definition centroid :: "'a AtomArray \<Rightarrow> vec3" where
  "centroid a = mean3 (coord a)"

text \<open>
  Boolean-mask indexing \<open>c[msk]\<close> of numpy: a new array of the rows whose mask entry is
  true; a mask whose length differs from the array's raises \<open>IndexError\<close>.
\<close>

definition mask_index :: "'b list \<Rightarrow> bool list \<Rightarrow> error + 'b list" where
  "mask_index c msk =
     (if length msk \<noteq> length c
      then Inl (IndexError ''boolean index did not match indexed array'')
      else Inr (map fst (filter snd (zip c msk))))"

text \<open>The mask \<open>atoms.atom_name == " CA "\<close>.\<close>

definition ca_mask :: "'a AtomArray \<Rightarrow> bool list" where
  "ca_mask a = map (\<lambda>n. n = '' CA '') (atom_name a)"

subsection \<open>\<open>_superimpose\<close>\<close>

text \<open>
  The transformation tuple \<open>(-mob_centroid, rotation, fix_centroid)\<close>.
\<close>

type_synonym transformation = "vec3 \<times> mat3 \<times> vec3"

text \<open>What \<open>np.linalg.svd\<close> returns for a 3x3 array: \<open>(v, s, w)\<close> with \<open>s\<close> one-dimensional.\<close>

type_synonym svd_fun = "mat3 \<Rightarrow> mat3 \<times> vec3 \<times> mat3"

text \<open>
  What numpy documents of the result, over the reals: \<open>v\<close> and \<open>w\<close> are orthogonal, the
  singular values \<open>s\<close> are non-negative and sorted in descending order, and the argument is
  \<open>v\<close> times the diagonal array of \<open>s\<close> times \<open>w\<close>. The decomposition is not unique, so
  \<open>svd_spec c\<close> is a predicate on results, asked of the routine at the arrays it is given.
\<close>

definition orthogonal3 :: "mat3 \<Rightarrow> bool" where
  "orthogonal3 m = (mat_mul m (transpose3 m) = ident3 \<and> mat_mul (transpose3 m) m = ident3)"

definition svd_spec :: "mat3 \<Rightarrow> mat3 \<times> vec3 \<times> mat3 \<Rightarrow> bool" where
  "svd_spec c r = (case r of (v, (s1, s2, s3), w) \<Rightarrow>
     orthogonal3 v \<and> orthogonal3 w \<and> s1 \<ge> s2 \<and> s2 \<ge> s3 \<and> s3 \<ge> 0
     \<and> mat_mul (mat_mul v (diag3 (s1, s2, s3))) w = c)"

text \<open>
  Lines 99 to 116: the centroids of the two structures as they were passed, the
  selection of the arrays to fit (copies in both branches), the size check and the
  subtraction of the centroids. The name \<open>BadStructureException\<close> of line 112 is bound
  nowhere in the module (its imports are \<open>np\<close>, \<open>centroid\<close>, \<open>Atom\<close>, \<open>AtomArray\<close>,
  \<open>AtomArrayStack\<close> and \<open>stack\<close>), so evaluating it raises \<open>NameError\<close>.
\<close>

definition select_coords ::
  "'a AtomArray \<Rightarrow> 'a AtomArray \<Rightarrow> bool \<Rightarrow> error + (coords \<times> coords)" where
  "select_coords fixed mobile ca_only =
     (if ca_only then
        (case mask_index (coord mobile) (ca_mask mobile) of
           Inl e \<Rightarrow> Inl e
         | Inr mob_centered \<Rightarrow>
             (case mask_index (coord fixed) (ca_mask fixed) of
                Inl e \<Rightarrow> Inl e
              | Inr fix_centered \<Rightarrow> Inr (mob_centered, fix_centered)))
      else Inr (coord mobile, coord fixed))"

definition centering ::
  "'a AtomArray \<Rightarrow> 'a AtomArray \<Rightarrow> bool \<Rightarrow> error + (vec3 \<times> vec3 \<times> coords \<times> coords)" where
  "centering fixed mobile ca_only =
     (let mob_centroid = centroid mobile;
          fix_centroid = centroid fixed
      in case select_coords fixed mobile ca_only of
           Inl e \<Rightarrow> Inl e
         | Inr (mob_centered, fix_centered) \<Rightarrow>
             if length mob_centered \<noteq> length fix_centered
             then Inl (NameError ''BadStructureException'')
             else Inr (mob_centroid, fix_centroid,
                       sub_rows mob_centered mob_centroid,
                       sub_rows fix_centered fix_centroid))"

text \<open>
  Lines 119 to 129: the covariance matrix, its decomposition and the rotation. Line 124
  computes a value that line 129 overwrites. When the guard of line 126 holds, line 127
  indexes the one-dimensional \<open>s\<close> with two indices, which raises \<open>IndexError\<close> before
  anything is changed.
\<close>

definition kabsch :: "svd_fun \<Rightarrow> coords \<Rightarrow> coords \<Rightarrow> error + mat3" where
  "kabsch svd y x =
     (let cov = dot_T y x in
      case svd cov of (v, s, w) \<Rightarrow>
        if det3 v * det3 w < 0
        then Inl (IndexError ''too many indices for array'')
        else Inr (mat_mul v w))"

text \<open>
  The whole function. Its test \<open>type(mobile) == AtomArray\<close> of line 98 holds at both
  call sites and by the type of \<open>mobile\<close> here. Lines 131 to 135 transform a copy of
  \<open>mobile\<close>.
\<close>

definition priv_superimpose ::
  "svd_fun \<Rightarrow> 'a AtomArray \<Rightarrow> 'a AtomArray \<Rightarrow> bool \<Rightarrow> error + ('a AtomArray \<times> transformation)" where
  "priv_superimpose svd fixed mobile ca_only =
     (case centering fixed mobile ca_only of
        Inl e \<Rightarrow> Inl e
      | Inr (mob_centroid, fix_centroid, mob_centered, fix_centered) \<Rightarrow>
          (case kabsch svd mob_centered fix_centered of
             Inl e \<Rightarrow> Inl e
           | Inr rotation \<Rightarrow>
               (let fitted_subject = copy mobile;
                    fitted_subject = fitted_subject
                      \<lparr>coord := sub_rows (coord fitted_subject) mob_centroid\<rparr>;
                    fitted_subject = fitted_subject
                      \<lparr>coord := dot_rows (coord fitted_subject) rotation\<rparr>;
                    fitted_subject = fitted_subject
                      \<lparr>coord := add_rows (coord fitted_subject) fix_centroid\<rparr>
                in Inr (fitted_subject, (vneg mob_centroid, rotation, fix_centroid)))))"

subsection \<open>\<open>superimpose\<close>\<close>

text \<open>
  The arguments of \<open>superimpose\<close> are tested with \<open>type(...)\<close>: an object is an
  \<open>AtomArray\<close>, an \<open>AtomArrayStack\<close> or anything else.

  Modelled from the spec: \<open>AtomArrayStack\<close>, its iteration and \<open>stack\<close> are in
  \<open>atoms.py\<close>, which is not among the sources. The spec: "CoordinateStack: an ordered
  sequence of CoordinateSet, all of identical length N"; iterating a stack yields its
  members in order and \<open>stack\<close> collects a list of arrays into a stack, "preserving
  original stack order".
\<close>

datatype 'a pyobj =
    PAtomArray "'a AtomArray"
  | PAtomArrayStack "'a AtomArray list"
  | POther

definition stack :: "'a AtomArray list \<Rightarrow> 'a AtomArray list" where
  "stack arrays = arrays"

text \<open>What \<open>superimpose\<close> returns: a pair for one structure, a stack and a list for a stack.\<close>

datatype 'a fit_result =
    FitOne "'a AtomArray" transformation
  | FitStack "'a AtomArray list" "transformation list"

text \<open>The loop of lines 78 to 82, with the two lists it appends to.\<close>

fun superimpose_loop ::
  "svd_fun \<Rightarrow> 'a AtomArray \<Rightarrow> 'a AtomArray list \<Rightarrow> bool \<Rightarrow>
   'a AtomArray list \<Rightarrow> transformation list \<Rightarrow>
   error + ('a AtomArray list \<times> transformation list)" where
  "superimpose_loop svd fixed [] ca_only fitted_subjects transformations =
     Inr (fitted_subjects, transformations)"
| "superimpose_loop svd fixed (mobile # rest) ca_only fitted_subjects transformations =
     (case priv_superimpose svd fixed mobile ca_only of
        Inl e \<Rightarrow> Inl e
      | Inr (fitted_subject, transformation) \<Rightarrow>
          superimpose_loop svd fixed rest ca_only
            (fitted_subjects @ [fitted_subject]) (transformations @ [transformation]))"

fun superimpose :: "svd_fun \<Rightarrow> 'a pyobj \<Rightarrow> 'a pyobj \<Rightarrow> bool \<Rightarrow> error + 'a fit_result" where
  "superimpose svd (PAtomArray fixed) (PAtomArray mobile) ca_only =
     (case priv_superimpose svd fixed mobile ca_only of
        Inl e \<Rightarrow> Inl e
      | Inr (fitted_subject, transformation) \<Rightarrow> Inr (FitOne fitted_subject transformation))"
| "superimpose svd (PAtomArray fixed) (PAtomArrayStack mobile) ca_only =
     (case superimpose_loop svd fixed mobile ca_only [] [] of
        Inl e \<Rightarrow> Inl e
      | Inr (fitted_subjects, transformations) \<Rightarrow>
          Inr (FitStack (stack fitted_subjects) transformations))"
| "superimpose svd (PAtomArray fixed) POther ca_only =
     Inl (ValueError ''Reference must be AtomArray'')"
| "superimpose svd fixed mobile ca_only =
     Inl (ValueError ''Reference must be AtomArray'')"

subsection \<open>\<open>apply_superimposition\<close>\<close>

text \<open>
  Lines 161 to 164 build the transformed copy in the local variable \<open>transformed\<close>;
  \<open>apply_superimposition_local\<close> is its value after line 164. The function body ends
  there, without a \<open>return\<close> statement, so the call evaluates to Python's \<open>None\<close>.
\<close>

definition apply_superimposition_local :: "'a AtomArray \<Rightarrow> transformation \<Rightarrow> 'a AtomArray" where
  "apply_superimposition_local atoms transformation =
     (case transformation of (t0, t1, t2) \<Rightarrow>
        (let transformed = copy atoms;
             transformed = transformed\<lparr>coord := add_rows (coord transformed) t0\<rparr>;
             transformed = transformed\<lparr>coord := dot_rows (coord transformed) t1\<rparr>;
             transformed = transformed\<lparr>coord := add_rows (coord transformed) t2\<rparr>
         in transformed))"

definition apply_superimposition :: "'a AtomArray \<Rightarrow> transformation \<Rightarrow> 'a AtomArray option" where
  "apply_superimposition atoms transformation =
     (let transformed = apply_superimposition_local atoms transformation in None)"


subsection \<open>The functions on a store\<close>

text \<open>
  The functions above work on values. Here the same statements run on a store, where
  \<open>-=\<close> and \<open>+=\<close> on an array change it in place for every holder of a reference, so that
  what a call does to the arrays of its caller can be stated. The store holds the
  coordinate arrays and the \<open>AtomArray\<close> objects; a reference is an index, and a new
  array or object goes to the end. The annotation arrays are never written by this
  module and stay values inside the object.
\<close>

record 'a AtomArray_obj =
  coord_ref :: nat
  obj_atom_name :: "string list"
  obj_annot :: 'a

record 'a store =
  arrays :: "coords list"
  objects :: "'a AtomArray_obj list"

text \<open>The structure an object reference stands for.\<close>

definition read_obj :: "'a store \<Rightarrow> nat \<Rightarrow> 'a AtomArray" where
  "read_obj s r = \<lparr>coord = arrays s ! coord_ref (objects s ! r),
                     atom_name = obj_atom_name (objects s ! r),
                     annot = obj_annot (objects s ! r)\<rparr>"

text \<open>A reference the caller can hold: an object of the store whose array is in the store.\<close>

definition valid_ref :: "'a store \<Rightarrow> nat \<Rightarrow> bool" where
  "valid_ref s r = (r < length (objects s) \<and> coord_ref (objects s ! r) < length (arrays s))"

text \<open>
  Allocation of an array (\<open>np.copy\<close>, boolean-mask indexing and \<open>np.dot\<close> all return new
  arrays) and of an object, in-place arithmetic on an array, and the assignment
  \<open>obj.coord = r\<close>.
\<close>

definition new_array :: "coords \<Rightarrow> 'a store \<Rightarrow> nat \<times> 'a store" where
  "new_array c s = (length (arrays s), s\<lparr>arrays := arrays s @ [c]\<rparr>)"

definition new_object :: "'a AtomArray_obj \<Rightarrow> 'a store \<Rightarrow> nat \<times> 'a store" where
  "new_object ob s = (length (objects s), s\<lparr>objects := objects s @ [ob]\<rparr>)"

definition update_array :: "nat \<Rightarrow> (coords \<Rightarrow> coords) \<Rightarrow> 'a store \<Rightarrow> 'a store" where
  "update_array r f s = s\<lparr>arrays := (arrays s)[r := f (arrays s ! r)]\<rparr>"

definition set_coord :: "nat \<Rightarrow> nat \<Rightarrow> 'a store \<Rightarrow> 'a store" where
  "set_coord obj r s = s\<lparr>objects := (objects s)[obj := (objects s ! obj)\<lparr>coord_ref := r\<rparr>]\<rparr>"

text \<open>
  Modelled from the spec: \<open>AtomArray.copy\<close> is in \<open>atoms.py\<close>, which is not among the
  sources. The spec: "a copy-construction operation that duplicates a coordinate set for
  independent mutation": a new object with a new coordinate array of the same contents.
\<close>

definition copy_st :: "nat \<Rightarrow> 'a store \<Rightarrow> nat \<times> 'a store" where
  "copy_st obj s =
     (let ob = objects s ! obj in
      case new_array (arrays s ! coord_ref ob) s of
        (r, s1) \<Rightarrow> new_object (ob\<lparr>coord_ref := r\<rparr>) s1)"

text \<open>Lines 101 to 109: both branches allocate the two arrays to fit.\<close>

definition select_coords_st ::
  "nat \<Rightarrow> nat \<Rightarrow> bool \<Rightarrow> 'a store \<Rightarrow> (error + (nat \<times> nat)) \<times> 'a store" where
  "select_coords_st fixed mobile ca_only s =
     (if ca_only then
        (case mask_index (coord (read_obj s mobile)) (ca_mask (read_obj s mobile)) of
           Inl e \<Rightarrow> (Inl e, s)
         | Inr mob_sel \<Rightarrow>
             (case new_array mob_sel s of
                (mob_centered, s1) \<Rightarrow>
                  (case mask_index (coord (read_obj s1 fixed)) (ca_mask (read_obj s1 fixed)) of
                     Inl e \<Rightarrow> (Inl e, s1)
                   | Inr fix_sel \<Rightarrow>
                       (case new_array fix_sel s1 of
                          (fix_centered, s2) \<Rightarrow> (Inr (mob_centered, fix_centered), s2)))))
      else
        (case new_array (coord (read_obj s mobile)) s of
           (mob_centered, s1) \<Rightarrow>
             (case new_array (coord (read_obj s1 fixed)) s1 of
                (fix_centered, s2) \<Rightarrow> (Inr (mob_centered, fix_centered), s2))))"

text \<open>
  Lines 131 to 134: \<open>fitted_subject.coord -= mob_centroid\<close> and
  \<open>fitted_subject.coord += fix_centroid\<close> change the array the attribute refers to in
  place; line 133 binds the attribute to the new array \<open>np.dot\<close> returns.
\<close>

definition fit_copy_st ::
  "nat \<Rightarrow> vec3 \<Rightarrow> mat3 \<Rightarrow> vec3 \<Rightarrow> 'a store \<Rightarrow> nat \<times> 'a store" where
  "fit_copy_st mobile mob_centroid rotation fix_centroid s =
     (case copy_st mobile s of
        (fitted_subject, s1) \<Rightarrow>
          (let s2 = update_array (coord_ref (objects s1 ! fitted_subject))
                      (\<lambda>c. sub_rows c mob_centroid) s1
           in case new_array
                  (dot_rows (arrays s2 ! coord_ref (objects s2 ! fitted_subject)) rotation) s2 of
                (r, s3) \<Rightarrow>
                  (let s4 = set_coord fitted_subject r s3;
                       s5 = update_array (coord_ref (objects s4 ! fitted_subject))
                              (\<lambda>c. add_rows c fix_centroid) s4
                   in (fitted_subject, s5))))"

text \<open>
  \<open>_superimpose\<close> on the store. Lines 115 and 116 change the two selected arrays in
  place. An exception leaves the store as it is at that point.
\<close>

definition priv_superimpose_st ::
  "svd_fun \<Rightarrow> nat \<Rightarrow> nat \<Rightarrow> bool \<Rightarrow> 'a store \<Rightarrow> (error + (nat \<times> transformation)) \<times> 'a store" where
  "priv_superimpose_st svd fixed mobile ca_only s =
     (let mob_centroid = centroid (read_obj s mobile);
          fix_centroid = centroid (read_obj s fixed)
      in case select_coords_st fixed mobile ca_only s of
           (Inl e, s1) \<Rightarrow> (Inl e, s1)
         | (Inr (mob_centered, fix_centered), s1) \<Rightarrow>
             if length (arrays s1 ! mob_centered) \<noteq> length (arrays s1 ! fix_centered)
             then (Inl (NameError ''BadStructureException''), s1)
             else
               (let s2 = update_array mob_centered (\<lambda>c. sub_rows c mob_centroid) s1;
                    s3 = update_array fix_centered (\<lambda>c. sub_rows c fix_centroid) s2
                in case kabsch svd (arrays s3 ! mob_centered) (arrays s3 ! fix_centered) of
                     Inl e \<Rightarrow> (Inl e, s3)
                   | Inr rotation \<Rightarrow>
                       (case fit_copy_st mobile mob_centroid rotation fix_centroid s3 of
                          (fitted_subject, s4) \<Rightarrow>
                            (Inr (fitted_subject, (vneg mob_centroid, rotation, fix_centroid)),
                             s4))))"

text \<open>\<open>apply_superimposition\<close> on the store: the local \<open>transformed\<close>, and the call.\<close>

definition apply_superimposition_local_st :: "nat \<Rightarrow> transformation \<Rightarrow> 'a store \<Rightarrow> nat \<times> 'a store" where
  "apply_superimposition_local_st atoms transformation s =
     (case transformation of (t0, t1, t2) \<Rightarrow>
        (case copy_st atoms s of
           (transformed, s1) \<Rightarrow>
             (let s2 = update_array (coord_ref (objects s1 ! transformed))
                         (\<lambda>c. add_rows c t0) s1
              in case new_array
                     (dot_rows (arrays s2 ! coord_ref (objects s2 ! transformed)) t1) s2 of
                   (r, s3) \<Rightarrow>
                     (let s4 = set_coord transformed r s3;
                          s5 = update_array (coord_ref (objects s4 ! transformed))
                                 (\<lambda>c. add_rows c t2) s4
                      in (transformed, s5)))))"

definition apply_superimposition_st :: "nat \<Rightarrow> transformation \<Rightarrow> 'a store \<Rightarrow> nat option \<times> 'a store" where
  "apply_superimposition_st atoms transformation s =
     (case apply_superimposition_local_st atoms transformation s of
        (transformed, s1) \<Rightarrow> (None, s1))"

text \<open>
  \<open>extends s s'\<close>: every array and every object of \<open>s\<close> is in \<open>s'\<close> at the same reference
  with the same contents; \<open>s'\<close> may hold more.
\<close>

definition extends :: "'a store \<Rightarrow> 'a store \<Rightarrow> bool" where
  "extends s s' = (prefix (arrays s) (arrays s') \<and> prefix (objects s) (objects s'))"

section \<open>Example inputs\<close>

text \<open>
  A decomposition routine for the examples: on a diagonal array whose entries have
  non-increasing absolute values it returns the signs, the absolute values and the
  identity, which is a singular value decomposition of such an array.
\<close>

definition ex_svd :: svd_fun where
  "ex_svd c = (case c of ((a, _, _), (_, e, _), (_, _, i)) \<Rightarrow>
     (diag3 (if a < 0 then - 1 else 1, if e < 0 then - 1 else 1, if i < 0 then - 1 else 1),
      (\<bar>a\<bar>, \<bar>e\<bar>, \<bar>i\<bar>), ident3))"

text \<open>Two structures of different sizes, with one and two \<open>CA\<close> atoms.\<close>

definition ex_small :: "unit AtomArray" where
  "ex_small = \<lparr>coord = [(0, 0, 0), (2, 0, 0)], atom_name = ['' CA '', '' N  ''], annot = ()\<rparr>"

definition ex_large :: "unit AtomArray" where
  "ex_large = \<lparr>coord = [(0, 0, 0), (2, 0, 0), (4, 0, 0)], atom_name = ['' CA '', '' N  '', '' CA ''], annot = ()\<rparr>"

text \<open>The structure \<open>ex_small\<close> moved along the first axis.\<close>

definition ex_shifted :: "unit AtomArray" where
  "ex_shifted = \<lparr>coord = [(3, 0, 0), (5, 0, 0)], atom_name = ['' CA '', '' N  ''], annot = ()\<rparr>"

text \<open>
  Six \<open>CA\<close> atoms on the axes, and their mirror image in the plane of the first two
  axes, atom by atom.
\<close>

definition ex_octa :: "unit AtomArray" where
  "ex_octa = \<lparr>coord = [(3, 0, 0), (- 3, 0, 0), (0, 2, 0), (0, - 2, 0), (0, 0, 1), (0, 0, - 1)],
     atom_name = ['' CA '', '' CA '', '' CA '', '' CA '', '' CA '', '' CA ''], annot = ()\<rparr>"

definition ex_mirror :: "unit AtomArray" where
  "ex_mirror = \<lparr>coord = [(3, 0, 0), (- 3, 0, 0), (0, 2, 0), (0, - 2, 0), (0, 0, - 1), (0, 0, 1)],
     atom_name = ['' CA '', '' CA '', '' CA '', '' CA '', '' CA '', '' CA ''], annot = ()\<rparr>"

text \<open>Two structures of different sizes without any \<open>CA\<close> atom.\<close>

definition ex_no_ca1 :: "unit AtomArray" where
  "ex_no_ca1 = \<lparr>coord = [(1, 2, 3)], atom_name = ['' N  ''], annot = ()\<rparr>"

definition ex_no_ca2 :: "unit AtomArray" where
  "ex_no_ca2 = \<lparr>coord = [(0, 0, 0), (2, 0, 0)], atom_name = ['' N  '', '' C  ''], annot = ()\<rparr>"

text \<open>A store with \<open>ex_small\<close> at reference 0 and \<open>ex_shifted\<close> at reference 1.\<close>

definition ex_store :: "unit store" where
  "ex_store = \<lparr>arrays = [[(0, 0, 0), (2, 0, 0)], [(3, 0, 0), (5, 0, 0)]],
     objects = [\<lparr>coord_ref = 0, obj_atom_name = ['' CA '', '' N  ''], obj_annot = ()\<rparr>,
                \<lparr>coord_ref = 1, obj_atom_name = ['' CA '', '' N  ''], obj_annot = ()\<rparr>]\<rparr>"

section \<open>Properties\<close>

lemmas model_defs = priv_superimpose_def centering_def select_coords_def mask_index_def
  ca_mask_def centroid_def mean3_def kabsch_def sub_rows_def add_rows_def dot_rows_def
  zero3_def ident3_def copy_def Let_def

lemmas ex_defs = ex_svd_def ex_small_def ex_large_def ex_shifted_def ex_no_ca1_def ex_no_ca2_def
  ex_octa_def ex_mirror_def

subsection \<open>Type dispatch of \<open>superimpose\<close>\<close>

text \<open>
  Claim C6. A stack passed as \<open>fixed\<close> raises the module's type error (\<open>ValueError\<close>,
  the spec's InputTypeError), so does any other non-\<open>AtomArray\<close> reference, and so does
  a \<open>mobile\<close> that is neither a single structure nor a stack. The results hold for every
  decomposition routine and every \<open>ca_only\<close>: nothing of the alignment is evaluated.
\<close>

theorem superimpose_type_errors:
  "superimpose svd (PAtomArrayStack models) mobile ca_only = Inl (ValueError ''Reference must be AtomArray'')
   \<and> superimpose svd POther mobile ca_only = Inl (ValueError ''Reference must be AtomArray'')
   \<and> superimpose svd (PAtomArray fixed) POther ca_only = Inl (ValueError ''Reference must be AtomArray'')"
  by simp

subsection \<open>The size check\<close>

text \<open>
  Claim C4. When the arrays selected for the fit differ in length, the call fails at line
  112 and returns nothing; the exception is \<open>NameError\<close> for the unbound name
  \<open>BadStructureException\<close>, not the structure-mismatch exception the line names.
\<close>

theorem size_mismatch_raises_NameError:
  assumes "select_coords fixed mobile ca_only = Inr (mob_sel, fix_sel)"
    and "length mob_sel \<noteq> length fix_sel"
  shows "priv_superimpose svd fixed mobile ca_only = Inl (NameError ''BadStructureException'')"
  using assms by (simp add: priv_superimpose_def centering_def)

theorem size_mismatch_raises_NameError_witness:
  "select_coords ex_small ex_large True = Inr ([(0, 0, 0), (4, 0, 0)], [(0, 0, 0)])
   \<and> length [(0, 0, 0), (4, 0, 0) :: vec3] \<noteq> length [(0, 0, 0) :: vec3]
   \<and> priv_superimpose ex_svd ex_small ex_large True = Inl (NameError ''BadStructureException'')"
proof -
  have sel: "select_coords ex_small ex_large True = Inr ([(0, 0, 0), (4, 0, 0)], [(0, 0, 0)])"
    by (simp add: select_coords_def mask_index_def ca_mask_def ex_defs)
  have len: "length [(0, 0, 0), (4, 0, 0) :: vec3] \<noteq> length [(0, 0, 0) :: vec3]"
    by simp
  from size_mismatch_raises_NameError [OF sel len, of ex_svd] sel len show ?thesis
    by simp
qed

subsection \<open>The rotation step\<close>

lemma kabsch_cases:
  obtains (raised) "kabsch svd y x = Inl (IndexError ''too many indices for array'')"
  | (returned) v s w where "svd (dot_T y x) = (v, s, w)" and "\<not> det3 v * det3 w < 0"
      and "kabsch svd y x = Inr (mat_mul v w)"
proof -
  obtain v s w where d: "svd (dot_T y x) = (v, s, w)"
    by (cases "svd (dot_T y x)") auto
  show thesis
  proof (cases "det3 v * det3 w < 0")
    case True
    with d have "kabsch svd y x = Inl (IndexError ''too many indices for array'')"
      by (simp add: kabsch_def)
    then show thesis by (rule raised)
  next
    case False
    with d have "kabsch svd y x = Inr (mat_mul v w)"
      by (simp add: kabsch_def)
    with d False show thesis by (rule returned)
  qed
qed

lemma kabsch_no_NameError: "kabsch svd y x \<noteq> Inl (NameError n)"
  by (rule kabsch_cases [of svd y x]) simp_all

subsection \<open>Structures without landmark atoms\<close>

lemma mask_index_none:
  assumes "length msk = length c" and "True \<notin> set msk"
  shows "mask_index c msk = Inr []"
proof -
  have "filter snd (zip c msk) = []"
    using assms(2) by (auto simp: filter_empty_conv dest: set_zip_rightD)
  with assms(1) show ?thesis by (simp add: mask_index_def)
qed

lemma ca_mask_none:
  "'' CA '' \<notin> set (atom_name a) \<Longrightarrow> True \<notin> set (ca_mask a)"
  by (auto simp: ca_mask_def)

text \<open>
  Claim C10. With \<open>ca_only\<close> set and no \<open>CA\<close> atom in either structure, both selected
  arrays are empty, the size check passes whatever the total atom counts are, and the
  call goes on to the rotation step: it does not fail with the exception of the size
  check.
\<close>

theorem no_landmarks_pass_size_check:
  assumes "wf_AtomArray fixed" and "wf_AtomArray mobile"
    and "'' CA '' \<notin> set (atom_name fixed)" and "'' CA '' \<notin> set (atom_name mobile)"
  shows "select_coords fixed mobile True = Inr ([], [])
    \<and> centering fixed mobile True = Inr (centroid mobile, centroid fixed, [], [])
    \<and> priv_superimpose svd fixed mobile True \<noteq> Inl (NameError ''BadStructureException'')
    \<and> priv_superimpose svd fixed mobile True =
        (case kabsch svd [] [] of
           Inl e \<Rightarrow> Inl e
         | Inr rotation \<Rightarrow>
             Inr (mobile\<lparr>coord := add_rows (dot_rows (sub_rows (coord mobile) (centroid mobile))
                                      rotation) (centroid fixed)\<rparr>,
                  (vneg (centroid mobile), rotation, centroid fixed)))"
proof -
  have m: "mask_index (coord mobile) (ca_mask mobile) = Inr []"
    using assms(2,4) by (intro mask_index_none ca_mask_none) (simp_all add: wf_AtomArray_def ca_mask_def)
  have f: "mask_index (coord fixed) (ca_mask fixed) = Inr []"
    using assms(1,3) by (intro mask_index_none ca_mask_none) (simp_all add: wf_AtomArray_def ca_mask_def)
  have sel: "select_coords fixed mobile True = Inr ([], [])"
    by (simp add: select_coords_def m f)
  have cen: "centering fixed mobile True = Inr (centroid mobile, centroid fixed, [], [])"
    by (simp add: centering_def sel sub_rows_def)
  have run: "priv_superimpose svd fixed mobile True =
        (case kabsch svd [] [] of
           Inl e \<Rightarrow> Inl e
         | Inr rotation \<Rightarrow>
             Inr (mobile\<lparr>coord := add_rows (dot_rows (sub_rows (coord mobile) (centroid mobile))
                                      rotation) (centroid fixed)\<rparr>,
                  (vneg (centroid mobile), rotation, centroid fixed)))"
    by (simp add: priv_superimpose_def cen copy_def Let_def split: sum.splits)
  have "priv_superimpose svd fixed mobile True \<noteq> Inl (NameError ''BadStructureException'')"
    using kabsch_no_NameError [of svd "[]" "[]"]
    by (auto simp: run split: sum.splits)
  with sel cen run show ?thesis by simp
qed

theorem no_landmarks_pass_size_check_witness:
  "wf_AtomArray ex_no_ca1 \<and> wf_AtomArray ex_no_ca2
   \<and> '' CA '' \<notin> set (atom_name ex_no_ca1) \<and> '' CA '' \<notin> set (atom_name ex_no_ca2)
   \<and> length (coord ex_no_ca1) \<noteq> length (coord ex_no_ca2)
   \<and> select_coords ex_no_ca1 ex_no_ca2 True = Inr ([], [])
   \<and> centering ex_no_ca1 ex_no_ca2 True = Inr ((1, 0, 0), (1, 2, 3), [], [])
   \<and> kabsch ex_svd [] [] = Inr ident3
   \<and> priv_superimpose ex_svd ex_no_ca1 ex_no_ca2 True
       = Inr (ex_no_ca2\<lparr>coord := [(0, 2, 3), (2, 2, 3)]\<rparr>, ((- 1, 0, 0), ident3, (1, 2, 3)))"
proof -
  have h: "wf_AtomArray ex_no_ca1" "wf_AtomArray ex_no_ca2"
    "'' CA '' \<notin> set (atom_name ex_no_ca1)" "'' CA '' \<notin> set (atom_name ex_no_ca2)"
    by (simp_all add: wf_AtomArray_def ex_defs)
  have c: "centroid ex_no_ca2 = (1, 0, 0)" "centroid ex_no_ca1 = (1, 2, 3)"
    by (simp_all add: centroid_def mean3_def ex_defs)
  have k: "kabsch ex_svd [] [] = Inr ident3"
    by (simp add: kabsch_def ex_svd_def zero3_def ident3_def)
  have "add_rows (dot_rows (sub_rows (coord ex_no_ca2) (1, 0, 0)) ident3) (1, 2, 3)
      = [(0, 2, 3), (2, 2, 3)]"
    by (simp add: add_rows_def dot_rows_def sub_rows_def ident3_def ex_defs)
  with no_landmarks_pass_size_check [OF h, of ex_svd] h c k show ?thesis
    by (simp add: ex_defs)
qed

subsection \<open>The fitted structure\<close>

lemma priv_superimpose_Inr:
  assumes "priv_superimpose svd fixed mobile ca_only = Inr (fitted, t)"
  obtains mob_centered fix_centered rotation where
    "centering fixed mobile ca_only = Inr (centroid mobile, centroid fixed, mob_centered, fix_centered)"
    and "kabsch svd mob_centered fix_centered = Inr rotation"
    and "t = (vneg (centroid mobile), rotation, centroid fixed)"
    and "fitted = mobile\<lparr>coord :=
           add_rows (dot_rows (sub_rows (coord mobile) (centroid mobile)) rotation) (centroid fixed)\<rparr>"
  using assms
  by (auto simp: priv_superimpose_def centering_def copy_def Let_def
      split: sum.splits prod.splits if_splits)

text \<open>
  Claim C9. The fitted structure is the mobile structure with another coordinate array:
  the atom names and the other annotation arrays are those of \<open>mobile\<close>, and the
  coordinate array has as many points.
\<close>

theorem fitted_keeps_annotations:
  assumes "priv_superimpose svd fixed mobile ca_only = Inr (fitted, t)"
  shows "atom_name fitted = atom_name mobile \<and> annot fitted = annot mobile
    \<and> length (coord fitted) = length (coord mobile)
    \<and> fitted = mobile\<lparr>coord := coord fitted\<rparr>"
  using assms
  by (elim priv_superimpose_Inr) (simp add: add_rows_def dot_rows_def sub_rows_def)

lemma ex_small_self:
  "priv_superimpose ex_svd ex_small ex_small True = Inr (ex_small, ((- 1, 0, 0), ident3, (1, 0, 0)))"
  by (simp add: model_defs ex_defs)

theorem fitted_keeps_annotations_witness:
  "priv_superimpose ex_svd ex_small ex_small True = Inr (ex_small, ((- 1, 0, 0), ident3, (1, 0, 0)))
   \<and> atom_name ex_small = ['' CA '', '' N  ''] \<and> annot ex_small = ()
   \<and> length (coord ex_small) = 2"
  using fitted_keeps_annotations [OF ex_small_self] ex_small_self
  by (simp add: ex_small_def)


subsection \<open>Stacks\<close>

lemma superimpose_loop_Inr:
  "superimpose_loop svd fixed ms ca_only fs ts = Inr (fs', ts') \<longleftrightarrow>
     (\<exists>gs us. fs' = fs @ gs \<and> ts' = ts @ us \<and> length gs = length ms \<and> length us = length ms
        \<and> (\<forall>i<length ms. priv_superimpose svd fixed (ms ! i) ca_only = Inr (gs ! i, us ! i)))"
proof (induction ms arbitrary: fs ts)
  case Nil
  then show ?case by auto
next
  case (Cons m ms)
  show ?case
  proof (cases "priv_superimpose svd fixed m ca_only")
    case (Inl e)
    then show ?thesis by (auto simp: nth_Cons split: nat.splits)
  next
    case (Inr r)
    obtain f t where r: "r = (f, t)" by (cases r)
    have step: "superimpose_loop svd fixed (m # ms) ca_only fs ts
        = superimpose_loop svd fixed ms ca_only (fs @ [f]) (ts @ [t])"
      using Inr r by simp
    show ?thesis
    proof
      assume "superimpose_loop svd fixed (m # ms) ca_only fs ts = Inr (fs', ts')"
      with step Cons.IH [of "fs @ [f]" "ts @ [t]"]
      obtain gs us where g: "fs' = (fs @ [f]) @ gs" "ts' = (ts @ [t]) @ us"
        "length gs = length ms" "length us = length ms"
        "\<forall>i<length ms. priv_superimpose svd fixed (ms ! i) ca_only = Inr (gs ! i, us ! i)"
        by auto
      have "\<forall>i<length (m # ms). priv_superimpose svd fixed ((m # ms) ! i) ca_only
              = Inr ((f # gs) ! i, (t # us) ! i)"
        using g(5) Inr r by (auto simp: nth_Cons split: nat.splits)
      with g(1-4) show "\<exists>gs us. fs' = fs @ gs \<and> ts' = ts @ us \<and> length gs = length (m # ms)
          \<and> length us = length (m # ms)
          \<and> (\<forall>i<length (m # ms). priv_superimpose svd fixed ((m # ms) ! i) ca_only = Inr (gs ! i, us ! i))"
        by (intro exI [of _ "f # gs"] exI [of _ "t # us"]) simp
    next
      assume "\<exists>gs us. fs' = fs @ gs \<and> ts' = ts @ us \<and> length gs = length (m # ms)
          \<and> length us = length (m # ms)
          \<and> (\<forall>i<length (m # ms). priv_superimpose svd fixed ((m # ms) ! i) ca_only = Inr (gs ! i, us ! i))"
      then obtain gs us where g: "fs' = fs @ gs" "ts' = ts @ us" "length gs = Suc (length ms)"
        "length us = Suc (length ms)"
        "\<forall>i<Suc (length ms). priv_superimpose svd fixed ((m # ms) ! i) ca_only = Inr (gs ! i, us ! i)"
        by auto
      obtain g0 gs' where gs: "gs = g0 # gs'" using g(3) by (cases gs) auto
      obtain u0 us' where us: "us = u0 # us'" using g(4) by (cases us) auto
      from g(5) have "priv_superimpose svd fixed m ca_only = Inr (g0, u0)"
        unfolding gs us by (auto dest: spec [of _ 0])
      with Inr r have eq: "g0 = f" "u0 = t" by simp_all
      have "\<forall>i<length ms. priv_superimpose svd fixed (ms ! i) ca_only = Inr (gs' ! i, us' ! i)"
      proof (intro allI impI)
        fix i assume "i < length ms"
        then have "Suc i < Suc (length ms)" by simp
        with g(5) have "priv_superimpose svd fixed ((m # ms) ! Suc i) ca_only = Inr (gs ! Suc i, us ! Suc i)"
          by blast
        then show "priv_superimpose svd fixed (ms ! i) ca_only = Inr (gs' ! i, us' ! i)"
          by (simp add: gs us)
      qed
      with g(1-4) gs us eq
      have "\<exists>gs us. fs' = (fs @ [f]) @ gs \<and> ts' = (ts @ [t]) @ us \<and> length gs = length ms
          \<and> length us = length ms
          \<and> (\<forall>i<length ms. priv_superimpose svd fixed (ms ! i) ca_only = Inr (gs ! i, us ! i))"
        by (intro exI [of _ gs'] exI [of _ us']) simp
      with Cons.IH [of "fs @ [f]" "ts @ [t]"] step
      show "superimpose_loop svd fixed (m # ms) ca_only fs ts = Inr (fs', ts')"
        by simp
    qed
  qed
qed

lemma superimpose_single_Inr:
  "superimpose svd (PAtomArray fixed) (PAtomArray mobile) ca_only = Inr (FitOne f t)
     \<longleftrightarrow> priv_superimpose svd fixed mobile ca_only = Inr (f, t)"
  by (auto split: sum.splits)

text \<open>
  Claim C5. For a stack, \<open>superimpose\<close> returns the fitted structures and the
  transformations in the order of the stack, and its result is the stack of \<open>fs\<close> with
  the list \<open>ts\<close> exactly when both are as long as the stack and, at every index, the
  call on the single member returns that fitted structure and that transformation.
\<close>

theorem superimpose_stack_pointwise:
  "superimpose svd (PAtomArray fixed) (PAtomArrayStack ms) ca_only = Inr (FitStack fs ts) \<longleftrightarrow>
     length fs = length ms \<and> length ts = length ms
     \<and> (\<forall>i<length ms. superimpose svd (PAtomArray fixed) (PAtomArray (ms ! i)) ca_only
            = Inr (FitOne (fs ! i) (ts ! i)))"
proof -
  have "superimpose svd (PAtomArray fixed) (PAtomArrayStack ms) ca_only = Inr (FitStack fs ts)
      \<longleftrightarrow> superimpose_loop svd fixed ms ca_only [] [] = Inr (fs, ts)"
    by (auto simp: stack_def split: sum.splits)
  then show ?thesis
    by (simp add: superimpose_loop_Inr superimpose_single_Inr del: superimpose.simps)
qed



lemma ex_shifted_fit:
  "priv_superimpose ex_svd ex_small ex_shifted True = Inr (ex_small, ((- 4, 0, 0), ident3, (1, 0, 0)))"
  by (simp add: model_defs ex_defs)

theorem superimpose_stack_pointwise_witness:
  "superimpose ex_svd (PAtomArray ex_small) (PAtomArrayStack [ex_small, ex_shifted]) True
     = Inr (FitStack [ex_small, ex_small] [((- 1, 0, 0), ident3, (1, 0, 0)), ((- 4, 0, 0), ident3, (1, 0, 0))])
   \<and> superimpose ex_svd (PAtomArray ex_small) (PAtomArray ex_small) True
     = Inr (FitOne ex_small ((- 1, 0, 0), ident3, (1, 0, 0)))
   \<and> superimpose ex_svd (PAtomArray ex_small) (PAtomArray ex_shifted) True
     = Inr (FitOne ex_small ((- 4, 0, 0), ident3, (1, 0, 0)))"
proof -
  have one: "superimpose ex_svd (PAtomArray ex_small) (PAtomArray ex_small) True
     = Inr (FitOne ex_small ((- 1, 0, 0), ident3, (1, 0, 0)))"
    by (simp add: ex_small_self)
  have two: "superimpose ex_svd (PAtomArray ex_small) (PAtomArray ex_shifted) True
     = Inr (FitOne ex_small ((- 4, 0, 0), ident3, (1, 0, 0)))"
    by (simp add: ex_shifted_fit)
  have "\<forall>i<length [ex_small, ex_shifted].
      superimpose ex_svd (PAtomArray ex_small) (PAtomArray ([ex_small, ex_shifted] ! i)) True
        = Inr (FitOne ([ex_small, ex_small] ! i)
             ([((- 1, 0, 0), ident3, (1, 0, 0)), ((- 4, 0, 0), ident3, (1, 0, 0))] ! i))"
    using one two by (auto simp: nth_Cons less_Suc_eq simp del: superimpose.simps split: nat.splits)
  then have "superimpose ex_svd (PAtomArray ex_small) (PAtomArrayStack [ex_small, ex_shifted]) True
     = Inr (FitStack [ex_small, ex_small] [((- 1, 0, 0), ident3, (1, 0, 0)), ((- 4, 0, 0), ident3, (1, 0, 0))])"
    using superimpose_stack_pointwise [of ex_svd ex_small "[ex_small, ex_shifted]" True
        "[ex_small, ex_small]" "[((- 1, 0, 0), ident3, (1, 0, 0)), ((- 4, 0, 0), ident3, (1, 0, 0))]"]
    by simp
  with one two show ?thesis by simp
qed

subsection \<open>Replaying a transformation\<close>

lemma vadd_vneg: "vadd p (vneg c) = vsub p c"
  by (cases p, cases c) simp

lemma replay_local_is_fitted:
  assumes "priv_superimpose svd fixed mobile ca_only = Inr (fitted, t)"
  shows "apply_superimposition_local mobile t = fitted"
  using assms
  by (elim priv_superimpose_Inr)
     (simp add: apply_superimposition_local_def copy_def add_rows_def sub_rows_def vadd_vneg)

text \<open>
  Claim C2. For a transformation obtained from superimposing \<open>mobile\<close>, the local
  variable \<open>transformed\<close> of \<open>apply_superimposition\<close> ends as the fitted structure the
  superimposition returned, but the function returns \<open>None\<close>: its body ends at line 164
  without returning \<open>transformed\<close>.
\<close>

theorem apply_superimposition_returns_None:
  assumes "priv_superimpose svd fixed mobile ca_only = Inr (fitted, t)"
  shows "apply_superimposition mobile t = None
    \<and> apply_superimposition_local mobile t = fitted"
  using replay_local_is_fitted [OF assms] by (simp add: apply_superimposition_def)

theorem apply_superimposition_returns_None_witness:
  "priv_superimpose ex_svd ex_small ex_shifted True = Inr (ex_small, ((- 4, 0, 0), ident3, (1, 0, 0)))
   \<and> apply_superimposition ex_shifted ((- 4, 0, 0), ident3, (1, 0, 0)) = None
   \<and> apply_superimposition_local ex_shifted ((- 4, 0, 0), ident3, (1, 0, 0)) = ex_small"
  using apply_superimposition_returns_None [OF ex_shifted_fit] ex_shifted_fit by simp

subsection \<open>The centroids\<close>




lemma select_coords_all: "select_coords fixed mobile False = Inr (coord mobile, coord fixed)"
  by (simp add: select_coords_def)




subsection \<open>Determinants and the reflection guard\<close>

lemma mat3_cases:
  obtains a b c d e f g h i where "m = ((a, b, c), (d, e, f), (g, h, i))"
  by (cases m) auto

lemma det3_mat_mul: "det3 (mat_mul m n) = det3 m * det3 n"
  by (cases m rule: mat3_cases, cases n rule: mat3_cases) (simp add: algebra_simps)

lemma det3_transpose3: "det3 (transpose3 m) = det3 m"
  by (cases m rule: mat3_cases) (simp add: algebra_simps)

lemma det3_diag3: "det3 (diag3 (a, b, c)) = a * b * c"
  by simp

lemma det3_ident3: "det3 ident3 = 1"
  by (simp add: ident3_def)

lemma orthogonal3_det: 
  assumes "orthogonal3 m" shows "det3 m = 1 \<or> det3 m = - 1"
proof -
  have "det3 (mat_mul m (transpose3 m)) = 1"
    using assms by (simp add: orthogonal3_def det3_ident3)
  then have "det3 m * det3 m = 1"
    by (simp add: det3_mat_mul det3_transpose3)
  then show ?thesis
    by (simp add: square_eq_1_iff)
qed


lemma svd_spec_det:
  assumes "svd_spec c (v, (s1, s2, s3), w)"
  shows "det3 c = det3 v * det3 w * (s1 * s2 * s3)" and "0 \<le> s1 * s2 * s3"
proof -
  from assms have c: "mat_mul (mat_mul v (diag3 (s1, s2, s3))) w = c"
    and s: "s1 \<ge> s2" "s2 \<ge> s3" "s3 \<ge> 0"
    by (simp_all add: svd_spec_def)
  from c have "det3 c = det3 (mat_mul (mat_mul v (diag3 (s1, s2, s3))) w)" by simp
  then show "det3 c = det3 v * det3 w * (s1 * s2 * s3)"
    by (simp only: det3_mat_mul det3_diag3) (simp add: algebra_simps)
  from s show "0 \<le> s1 * s2 * s3" by simp
qed

lemma svd_spec_reflection:
  assumes "svd_spec c (v, s, w)" and "det3 c < 0"
  shows "det3 v * det3 w < 0"
proof -
  obtain s1 s2 s3 where s: "s = (s1, s2, s3)" by (cases s)
  from svd_spec_det [OF assms(1) [unfolded s]] assms(2)
  have "det3 v * det3 w * (s1 * s2 * s3) < 0" and "0 \<le> s1 * s2 * s3" by simp_all
  then show ?thesis
    by (metis mult_less_0_iff not_less order.asym)
qed

lemma guard_engaged_raises:
  assumes "centering fixed mobile ca_only = Inr (mob_centroid, fix_centroid, y, x)"
    and "svd (dot_T y x) = (v, s, w)" and "det3 v * det3 w < 0"
  shows "priv_superimpose svd fixed mobile ca_only = Inl (IndexError ''too many indices for array'')"
  using assms by (simp add: priv_superimpose_def kabsch_def)

text \<open>
  Claim C1. Whenever the covariance matrix of the centered arrays has a negative
  determinant, every decomposition that meets \<open>svd_spec\<close> has
  \<open>det v * det w < 0\<close>, the guard of line 126 holds, and the call fails with
  \<open>IndexError\<close> at line 127 instead of returning a rotation.
\<close>

theorem reflection_raises_IndexError:
  assumes "centering fixed mobile ca_only = Inr (mob_centroid, fix_centroid, y, x)"
    and "svd_spec (dot_T y x) (svd (dot_T y x))"
    and "det3 (dot_T y x) < 0"
  shows "priv_superimpose svd fixed mobile ca_only = Inl (IndexError ''too many indices for array'')"
proof -
  obtain v s w where d: "svd (dot_T y x) = (v, s, w)"
    by (cases "svd (dot_T y x)") auto
  from assms(2,3) have "det3 v * det3 w < 0"
    unfolding d by (rule svd_spec_reflection)
  with assms(1) d show ?thesis by (rule guard_engaged_raises)
qed

lemma ex_mirror_centering:
  "centering ex_octa ex_mirror ca_only = Inr ((0, 0, 0), (0, 0, 0), coord ex_mirror, coord ex_octa)"
  by (cases ca_only) (simp_all add: model_defs ex_defs)

lemma ex_mirror_cov: "dot_T (coord ex_mirror) (coord ex_octa) = ((18, 0, 0), (0, 8, 0), (0, 0, - 2))"
  by (simp add: ex_defs zero3_def)

theorem reflection_raises_IndexError_witness:
  "centering ex_octa ex_mirror True = Inr ((0, 0, 0), (0, 0, 0), coord ex_mirror, coord ex_octa)
   \<and> svd_spec (dot_T (coord ex_mirror) (coord ex_octa)) (ex_svd (dot_T (coord ex_mirror) (coord ex_octa)))
   \<and> ex_svd (dot_T (coord ex_mirror) (coord ex_octa))
        = (((1, 0, 0), (0, 1, 0), (0, 0, - 1)), (18, 8, 2), ((1, 0, 0), (0, 1, 0), (0, 0, 1)))
   \<and> det3 (dot_T (coord ex_mirror) (coord ex_octa)) < 0
   \<and> priv_superimpose ex_svd ex_octa ex_mirror True = Inl (IndexError ''too many indices for array'')"
proof -
  have sp: "svd_spec (dot_T (coord ex_mirror) (coord ex_octa)) (ex_svd (dot_T (coord ex_mirror) (coord ex_octa)))"
    by (simp add: ex_mirror_cov svd_spec_def orthogonal3_def ex_svd_def ident3_def)
  have dt: "det3 (dot_T (coord ex_mirror) (coord ex_octa)) < 0"
    by (simp add: ex_mirror_cov)
  have ev: "ex_svd (dot_T (coord ex_mirror) (coord ex_octa))
        = (((1, 0, 0), (0, 1, 0), (0, 0, - 1)), (18, 8, 2), ((1, 0, 0), (0, 1, 0), (0, 0, 1)))"
    by (simp add: ex_mirror_cov ex_svd_def ident3_def)
  note cen = ex_mirror_centering [of True]
  from reflection_raises_IndexError [of ex_octa ex_mirror True _ _ _ _ ex_svd, OF cen sp dt] cen sp dt ev
  show ?thesis by simp
qed

text \<open>When the rotation step returns, its result is a proper rotation.\<close>

lemma mat_mul_assoc: "mat_mul (mat_mul a b) c = mat_mul a (mat_mul b c)"
  by (cases a rule: mat3_cases, cases b rule: mat3_cases, cases c rule: mat3_cases)
     (simp add: algebra_simps)

lemma transpose3_mat_mul: "transpose3 (mat_mul a b) = mat_mul (transpose3 b) (transpose3 a)"
  by (cases a rule: mat3_cases, cases b rule: mat3_cases) (simp add: algebra_simps)

lemma mat_mul_ident3 [simp]: "mat_mul m ident3 = m" "mat_mul ident3 m = m"
  by (cases m rule: mat3_cases, simp add: ident3_def)+

lemma transpose3_transpose3 [simp]: "transpose3 (transpose3 m) = m"
  by (cases m rule: mat3_cases) simp

lemma orthogonal3_mat_mul:
  assumes "orthogonal3 a" and "orthogonal3 b"
  shows "orthogonal3 (mat_mul a b)"
proof -
  have "mat_mul (mat_mul a b) (transpose3 (mat_mul a b))
      = mat_mul a (mat_mul (mat_mul b (transpose3 b)) (transpose3 a))"
    by (simp add: transpose3_mat_mul mat_mul_assoc)
  moreover have "mat_mul (transpose3 (mat_mul a b)) (mat_mul a b)
      = mat_mul (transpose3 b) (mat_mul (mat_mul (transpose3 a) a) b)"
    by (simp add: transpose3_mat_mul mat_mul_assoc)
  ultimately show ?thesis
    using assms by (simp add: orthogonal3_def)
qed

lemma kabsch_returns_proper_rotation:
  assumes "svd_spec (dot_T y x) (svd (dot_T y x))" and "kabsch svd y x = Inr r"
  shows "orthogonal3 r \<and> det3 r = 1"
proof (rule kabsch_cases [of svd y x])
  assume "kabsch svd y x = Inl (IndexError ''too many indices for array'')"
  with assms(2) show ?thesis by simp
next
  fix v s w
  assume d: "svd (dot_T y x) = (v, s, w)" and g: "\<not> det3 v * det3 w < 0"
    and k: "kabsch svd y x = Inr (mat_mul v w)"
  from assms(1) d have o: "orthogonal3 v" "orthogonal3 w"
    by (auto simp: svd_spec_def split: prod.splits)
  from orthogonal3_det [OF o(1)] orthogonal3_det [OF o(2)] g
  have "det3 v * det3 w = 1" by auto
  with o k assms(2) show ?thesis
    by (auto simp: det3_mat_mul orthogonal3_mat_mul)
qed

subsection \<open>Inputs are not mutated\<close>

lemma extends_refl: "extends s s"
  by (simp add: extends_def)

lemma extends_trans: "extends s s1 \<Longrightarrow> extends s1 s2 \<Longrightarrow> extends s s2"
  by (auto simp: extends_def)

lemma extends_length:
  "extends s s' \<Longrightarrow> length (arrays s) \<le> length (arrays s') \<and> length (objects s) \<le> length (objects s')"
  by (auto simp: extends_def dest: prefix_length_le)

lemma prefix_nth: "prefix xs ys \<Longrightarrow> i < length xs \<Longrightarrow> ys ! i = xs ! i"
  by (auto simp: prefix_def nth_append)

lemma prefix_list_update: "prefix xs ys \<Longrightarrow> length xs \<le> i \<Longrightarrow> prefix xs (ys[i := v])"
  by (auto simp: prefix_def list_update_append)

lemma extends_read_obj:
  assumes "extends s s'" and "valid_ref s r"
  shows "read_obj s' r = read_obj s r" and "valid_ref s' r"
proof -
  from assms have o: "objects s' ! r = objects s ! r"
    by (simp add: extends_def valid_ref_def prefix_nth)
  from assms have a: "arrays s' ! coord_ref (objects s ! r) = arrays s ! coord_ref (objects s ! r)"
    by (simp add: extends_def valid_ref_def prefix_nth)
  show "read_obj s' r = read_obj s r"
    by (simp add: read_obj_def o a)
  from assms extends_length [OF assms(1)] show "valid_ref s' r"
    by (simp add: valid_ref_def o)
qed

lemma new_array_extends:
  assumes "extends s0 s" and "new_array c s = (r, s')"
  shows "extends s0 s'" and "r = length (arrays s)" and "arrays s' = arrays s @ [c]"
    and "objects s' = objects s"
  using assms by (auto simp: new_array_def extends_def)

lemma new_object_extends:
  assumes "extends s0 s" and "new_object ob s = (r, s')"
  shows "extends s0 s'" and "r = length (objects s)" and "objects s' = objects s @ [ob]"
    and "arrays s' = arrays s"
  using assms by (auto simp: new_object_def extends_def)

lemma update_array_extends:
  assumes "extends s0 s" and "length (arrays s0) \<le> r"
  shows "extends s0 (update_array r f s)"
  using assms by (simp add: update_array_def extends_def prefix_list_update)

lemma set_coord_extends:
  assumes "extends s0 s" and "length (objects s0) \<le> obj"
  shows "extends s0 (set_coord obj r s)"
  using assms by (simp add: set_coord_def extends_def prefix_list_update)

lemma copy_st_result:
  assumes "copy_st obj s = (c, s')"
  shows "c = length (objects s)" and "arrays s' = arrays s @ [arrays s ! coord_ref (objects s ! obj)]"
    and "objects s' = objects s @ [(objects s ! obj)\<lparr>coord_ref := length (arrays s)\<rparr>]"
  using assms by (auto simp: copy_st_def new_array_def new_object_def Let_def)

lemma fit_copy_st_result:
  assumes "fit_copy_st mobile mob_centroid rotation fix_centroid s = (fitted_subject, s')"
  shows "fitted_subject = length (objects s)"
    and "objects s' = objects s @ [(objects s ! mobile)\<lparr>coord_ref := Suc (length (arrays s))\<rparr>]"
    and "arrays s' = arrays s @
           [sub_rows (arrays s ! coord_ref (objects s ! mobile)) mob_centroid,
            add_rows (dot_rows (sub_rows (arrays s ! coord_ref (objects s ! mobile)) mob_centroid)
               rotation) fix_centroid]"
  using assms
  by (auto simp: fit_copy_st_def copy_st_def new_array_def new_object_def update_array_def
      set_coord_def Let_def nth_append list_update_append split: prod.splits)


lemma read_obj_new_array:
  assumes "valid_ref s r"
  shows "read_obj (s\<lparr>arrays := arrays s @ cs\<rparr>) r = read_obj s r"
  using assms by (simp add: read_obj_def valid_ref_def nth_append)

lemma select_coords_st_Inl:
  assumes "valid_ref s fixed" and "valid_ref s mobile"
    and "select_coords_st fixed mobile ca_only s = (Inl e, s1)"
  shows "extends s s1"
    and "select_coords (read_obj s fixed) (read_obj s mobile) ca_only = Inl e"
  using assms
  by (auto simp: select_coords_st_def select_coords_def new_array_def extends_def
      read_obj_new_array split: if_splits sum.splits)

lemma select_coords_st_Inr:
  assumes "valid_ref s fixed" and "valid_ref s mobile"
    and "select_coords_st fixed mobile ca_only s = (Inr (mob_centered, fix_centered), s1)"
  obtains mob_sel fix_sel where
    "select_coords (read_obj s fixed) (read_obj s mobile) ca_only = Inr (mob_sel, fix_sel)"
    and "mob_centered = length (arrays s)" and "fix_centered = Suc (length (arrays s))"
    and "arrays s1 = arrays s @ [mob_sel, fix_sel]" and "objects s1 = objects s"
  using assms
  by (auto simp: select_coords_st_def select_coords_def new_array_def
      read_obj_new_array split: if_splits sum.splits)

lemma extends_append:
  assumes "arrays s' = arrays s @ cs" and "objects s' = objects s @ os"
  shows "extends s s'"
  using assms by (simp add: extends_def)

text \<open>The store after a call, and the link to the functions on values.\<close>

lemma priv_superimpose_st_Inr:
  assumes "valid_ref s fixed" and "valid_ref s mobile"
    and "priv_superimpose_st svd fixed mobile ca_only s = (Inr (fitted_subject, t), s')"
  obtains cs where
    "priv_superimpose svd (read_obj s fixed) (read_obj s mobile) ca_only
       = Inr (read_obj s' fitted_subject, t)"
    and "fitted_subject = length (objects s)"
    and "objects s' = objects s @ [(objects s ! mobile)\<lparr>coord_ref := length (arrays s) + 3\<rparr>]"
    and "arrays s' = arrays s @ cs" and "length cs = 4"
proof -
  define mc where "mc = centroid (read_obj s mobile)"
  define fc where "fc = centroid (read_obj s fixed)"
  obtain res s1 where sel: "select_coords_st fixed mobile ca_only s = (res, s1)"
    by (cases "select_coords_st fixed mobile ca_only s")
  from assms(3) sel obtain mob_centered fix_centered where res: "res = Inr (mob_centered, fix_centered)"
    by (cases res) (auto simp: priv_superimpose_st_def Let_def)
  from select_coords_st_Inr [OF assms(1,2) sel [unfolded res]]
  obtain mob_sel fix_sel where
    p: "select_coords (read_obj s fixed) (read_obj s mobile) ca_only = Inr (mob_sel, fix_sel)"
    and m: "mob_centered = length (arrays s)" and f: "fix_centered = Suc (length (arrays s))"
    and a1: "arrays s1 = arrays s @ [mob_sel, fix_sel]" and o1: "objects s1 = objects s"
    by blast
  define s3 where "s3 = update_array fix_centered (\<lambda>c. sub_rows c fc)
               (update_array mob_centered (\<lambda>c. sub_rows c mc) s1)"
  have a3: "arrays s3 = arrays s @ [sub_rows mob_sel mc, sub_rows fix_sel fc]"
    and o3: "objects s3 = objects s"
    by (simp_all add: s3_def update_array_def a1 o1 m f list_update_append nth_append)
  from assms(3) sel res have len: "length mob_sel = length fix_sel"
    by (auto simp: priv_superimpose_st_def Let_def a1 m f nth_append split: if_splits)
  have run: "priv_superimpose_st svd fixed mobile ca_only s =
      (case kabsch svd (sub_rows mob_sel mc) (sub_rows fix_sel fc) of
         Inl e \<Rightarrow> (Inl e, s3)
       | Inr rotation \<Rightarrow>
           (case fit_copy_st mobile mc rotation fc s3 of
              (fitted_subject, s4) \<Rightarrow> (Inr (fitted_subject, (vneg mc, rotation, fc)), s4)))"
  proof -
    have s3': "update_array (Suc (length (arrays s))) (\<lambda>c. sub_rows c fc)
        (update_array (length (arrays s)) (\<lambda>c. sub_rows c mc) s1) = s3"
      by (simp add: s3_def m f)
    show ?thesis
      using len
      by (simp add: priv_superimpose_st_def sel res Let_def mc_def [symmetric] fc_def [symmetric]
          a1 m f nth_append s3' a3 split: sum.splits)
  qed
  from assms(3) obtain rotation where
    k: "kabsch svd (sub_rows mob_sel mc) (sub_rows fix_sel fc) = Inr rotation"
    and fit: "fit_copy_st mobile mc rotation fc s3 = (fitted_subject, s')"
    and t: "t = (vneg mc, rotation, fc)"
    unfolding run by (auto split: sum.splits prod.splits)
  note r = fit_copy_st_result [OF fit]
  have mob_old: "coord_ref (objects s ! mobile) < length (arrays s)" "mobile < length (objects s)"
    using assms(2) by (simp_all add: valid_ref_def)
  have fitted: "read_obj s' fitted_subject = (read_obj s mobile)
      \<lparr>coord := add_rows (dot_rows (sub_rows (coord (read_obj s mobile)) mc) rotation) fc\<rparr>"
    using mob_old by (simp add: read_obj_def r a3 o3 nth_append)
  have pure: "priv_superimpose svd (read_obj s fixed) (read_obj s mobile) ca_only
       = Inr (read_obj s' fitted_subject, t)"
    using p len k
    by (simp add: priv_superimpose_def centering_def fitted t copy_def Let_def
        mc_def [symmetric] fc_def [symmetric])
  show thesis
  proof (rule that [OF pure])
    show "fitted_subject = length (objects s)" by (simp add: r o3)
    show "objects s' = objects s @ [(objects s ! mobile)\<lparr>coord_ref := length (arrays s) + 3\<rparr>]"
      using mob_old by (simp add: r a3 o3)
    show "arrays s' = arrays s @ [sub_rows mob_sel mc, sub_rows fix_sel fc,
        sub_rows (arrays s3 ! coord_ref (objects s3 ! mobile)) mc,
        add_rows (dot_rows (sub_rows (arrays s3 ! coord_ref (objects s3 ! mobile)) mc) rotation) fc]"
      unfolding r(3) a3 by simp
    show "length [sub_rows mob_sel mc, sub_rows fix_sel fc,
        sub_rows (arrays s3 ! coord_ref (objects s3 ! mobile)) mc,
        add_rows (dot_rows (sub_rows (arrays s3 ! coord_ref (objects s3 ! mobile)) mc) rotation) fc] = 4"
      by simp
  qed
qed


lemma priv_superimpose_st_Inl:
  assumes "valid_ref s fixed" and "valid_ref s mobile"
    and "priv_superimpose_st svd fixed mobile ca_only s = (Inl e, s')"
  shows "priv_superimpose svd (read_obj s fixed) (read_obj s mobile) ca_only = Inl e"
    and "extends s s'"
proof -
  define mc where "mc = centroid (read_obj s mobile)"
  define fc where "fc = centroid (read_obj s fixed)"
  obtain res s1 where sel: "select_coords_st fixed mobile ca_only s = (res, s1)"
    by (cases "select_coords_st fixed mobile ca_only s")
  have "priv_superimpose svd (read_obj s fixed) (read_obj s mobile) ca_only = Inl e \<and> extends s s'"
  proof (cases res)
    case (Inl e1)
    with assms(3) sel have "e1 = e" "s1 = s'"
      by (simp_all add: priv_superimpose_st_def Let_def)
    with select_coords_st_Inl [OF assms(1,2) sel [unfolded Inl]] show ?thesis
      by (simp add: priv_superimpose_def centering_def Let_def)
  next
    case (Inr p)
    obtain mob_centered fix_centered where p: "p = (mob_centered, fix_centered)" by (cases p)
    from select_coords_st_Inr [OF assms(1,2) sel [unfolded Inr p]]
    obtain mob_sel fix_sel where
      q: "select_coords (read_obj s fixed) (read_obj s mobile) ca_only = Inr (mob_sel, fix_sel)"
      and m: "mob_centered = length (arrays s)" and f: "fix_centered = Suc (length (arrays s))"
      and a1: "arrays s1 = arrays s @ [mob_sel, fix_sel]" and o1: "objects s1 = objects s"
      by blast
    define s3 where "s3 = update_array (Suc (length (arrays s))) (\<lambda>c. sub_rows c fc)
               (update_array (length (arrays s)) (\<lambda>c. sub_rows c mc) s1)"
    have a3: "arrays s3 = arrays s @ [sub_rows mob_sel mc, sub_rows fix_sel fc]"
      and o3: "objects s3 = objects s"
      by (simp_all add: s3_def update_array_def a1 o1 list_update_append nth_append)
    show ?thesis
    proof (cases "length mob_sel = length fix_sel")
      case False
      with assms(3) sel Inr p have "e = NameError ''BadStructureException''" "s' = s1"
        by (simp_all add: priv_superimpose_st_def Let_def a1 m f nth_append)
      with False q a1 o1 show ?thesis
        by (simp add: priv_superimpose_def centering_def Let_def extends_def)
    next
      case True
      have run: "priv_superimpose_st svd fixed mobile ca_only s =
          (case kabsch svd (sub_rows mob_sel mc) (sub_rows fix_sel fc) of
             Inl e \<Rightarrow> (Inl e, s3)
           | Inr rotation \<Rightarrow>
               (case fit_copy_st mobile mc rotation fc s3 of
                  (fitted_subject, s4) \<Rightarrow> (Inr (fitted_subject, (vneg mc, rotation, fc)), s4)))"
        using True
        by (simp add: priv_superimpose_st_def sel Inr p Let_def mc_def [symmetric]
            fc_def [symmetric] a1 m f nth_append s3_def [symmetric] a3 split: sum.splits)
      from assms(3) have k: "kabsch svd (sub_rows mob_sel mc) (sub_rows fix_sel fc) = Inl e"
        and s': "s' = s3"
        unfolding run by (auto split: sum.splits prod.splits)
      from k q True a3 o3 s' show ?thesis
        by (simp add: priv_superimpose_def centering_def Let_def extends_def
            mc_def [symmetric] fc_def [symmetric])
    qed
  qed
  then show "priv_superimpose svd (read_obj s fixed) (read_obj s mobile) ca_only = Inl e"
    and "extends s s'" by simp_all
qed

lemma apply_superimposition_local_st_result:
  assumes "valid_ref s atoms"
    and "apply_superimposition_local_st atoms transformation s = (transformed, s')"
  obtains cs where
    "read_obj s' transformed = apply_superimposition_local (read_obj s atoms) transformation"
    and "transformed = length (objects s)"
    and "objects s' = objects s @ [(objects s ! atoms)\<lparr>coord_ref := Suc (length (arrays s))\<rparr>]"
    and "arrays s' = arrays s @ cs" and "length cs = 2"
proof -
  obtain t0 t1 t2 where t: "transformation = (t0, t1, t2)" by (cases transformation)
  from assms(1) have old: "coord_ref (objects s ! atoms) < length (arrays s)" "atoms < length (objects s)"
    by (simp_all add: valid_ref_def)
  from assms(2) have tr: "transformed = length (objects s)"
    and ob: "objects s' = objects s @ [(objects s ! atoms)\<lparr>coord_ref := Suc (length (arrays s))\<rparr>]"
    and ar: "arrays s' = arrays s @
           [add_rows (arrays s ! coord_ref (objects s ! atoms)) t0,
            add_rows (dot_rows (add_rows (arrays s ! coord_ref (objects s ! atoms)) t0) t1) t2]"
    by (auto simp: apply_superimposition_local_st_def t copy_st_def new_array_def new_object_def
        update_array_def set_coord_def Let_def nth_append list_update_append split: prod.splits)
  have "read_obj s' transformed = apply_superimposition_local (read_obj s atoms) transformation"
    using old
    by (simp add: read_obj_def tr ob ar nth_append apply_superimposition_local_def t copy_def)
  from this tr ob ar show thesis
    by (rule that) simp
qed


text \<open>
  Claim C8. A call of \<open>_superimpose\<close> or of \<open>apply_superimposition\<close> leaves every array
  and every object that was in the store before the call as it was, so \<open>fixed\<close>,
  \<open>mobile\<close> and \<open>atoms\<close> stand for the same structures afterwards. The fitted structure
  that \<open>_superimpose\<close> returns is an object that was not in the store before, and its
  coordinate array is an array that was not in the store before.
\<close>

theorem inputs_not_mutated:
  assumes "valid_ref s fixed" and "valid_ref s mobile" and "valid_ref s atoms"
    and "priv_superimpose_st svd fixed mobile ca_only s = (res, s1)"
    and "apply_superimposition_st atoms transformation s = (res2, s2)"
  shows "extends s s1 \<and> read_obj s1 fixed = read_obj s fixed \<and> read_obj s1 mobile = read_obj s mobile
    \<and> (\<forall>fitted t. res = Inr (fitted, t) \<longrightarrow>
          length (objects s) \<le> fitted \<and> valid_ref s1 fitted
          \<and> length (arrays s) \<le> coord_ref (objects s1 ! fitted))
    \<and> extends s s2 \<and> read_obj s2 atoms = read_obj s atoms"
proof -
  have e1: "extends s s1"
  proof (cases res)
    case (Inl e)
    with assms(4) show ?thesis
      by (auto intro: priv_superimpose_st_Inl(2) [OF assms(1,2)])
  next
    case (Inr p)
    obtain fitted t where "p = (fitted, t)" by (cases p)
    with Inr assms(4) show ?thesis
      by (auto elim!: priv_superimpose_st_Inr [OF assms(1,2)] intro: extends_append)
  qed
  have new: "length (objects s) \<le> fitted \<and> valid_ref s1 fitted
      \<and> length (arrays s) \<le> coord_ref (objects s1 ! fitted)"
    if "res = Inr (fitted, t)" for fitted t
    using assms(4) [unfolded that]
    by (rule priv_superimpose_st_Inr [OF assms(1,2)]) (simp add: valid_ref_def)
  obtain transformed where loc: "apply_superimposition_local_st atoms transformation s = (transformed, s2)"
    using assms(5) by (auto simp: apply_superimposition_st_def split: prod.splits)
  have e2: "extends s s2"
    by (rule apply_superimposition_local_st_result [OF assms(3) loc]) (rule extends_append)
  from e1 e2 new extends_read_obj(1) [OF e1 assms(1)] extends_read_obj(1) [OF e1 assms(2)]
    extends_read_obj(1) [OF e2 assms(3)]
  show ?thesis by blast
qed

lemma ex_store_fit:
  "priv_superimpose_st ex_svd 0 1 True ex_store =
     (Inr (2, ((- 4, 0, 0), ident3, (1, 0, 0))),
      \<lparr>arrays = [[(0, 0, 0), (2, 0, 0)], [(3, 0, 0), (5, 0, 0)], [(- 1, 0, 0)], [(- 1, 0, 0)],
                  [(- 1, 0, 0), (1, 0, 0)], [(0, 0, 0), (2, 0, 0)]],
       objects = [\<lparr>coord_ref = 0, obj_atom_name = ['' CA '', '' N  ''], obj_annot = ()\<rparr>,
                  \<lparr>coord_ref = 1, obj_atom_name = ['' CA '', '' N  ''], obj_annot = ()\<rparr>,
                  \<lparr>coord_ref = 5, obj_atom_name = ['' CA '', '' N  ''], obj_annot = ()\<rparr>]\<rparr>)"
  by (simp add: priv_superimpose_st_def select_coords_st_def fit_copy_st_def copy_st_def
      new_array_def new_object_def update_array_def set_coord_def read_obj_def ex_store_def
      model_defs ex_svd_def)

lemma ex_store_apply:
  "apply_superimposition_st 1 ((- 4, 0, 0), ident3, (1, 0, 0)) ex_store =
     (None,
      \<lparr>arrays = [[(0, 0, 0), (2, 0, 0)], [(3, 0, 0), (5, 0, 0)],
                  [(- 1, 0, 0), (1, 0, 0)], [(0, 0, 0), (2, 0, 0)]],
       objects = [\<lparr>coord_ref = 0, obj_atom_name = ['' CA '', '' N  ''], obj_annot = ()\<rparr>,
                  \<lparr>coord_ref = 1, obj_atom_name = ['' CA '', '' N  ''], obj_annot = ()\<rparr>,
                  \<lparr>coord_ref = 3, obj_atom_name = ['' CA '', '' N  ''], obj_annot = ()\<rparr>]\<rparr>)"
  by (simp add: apply_superimposition_st_def apply_superimposition_local_st_def copy_st_def
      new_array_def new_object_def update_array_def set_coord_def ex_store_def
      model_defs)

theorem inputs_not_mutated_witness:
  "valid_ref ex_store 0 \<and> valid_ref ex_store 1
   \<and> read_obj ex_store 0 = ex_small \<and> read_obj ex_store 1 = ex_shifted
   \<and> fst (priv_superimpose_st ex_svd 0 1 True ex_store) = Inr (2, ((- 4, 0, 0), ident3, (1, 0, 0)))
   \<and> extends ex_store (snd (priv_superimpose_st ex_svd 0 1 True ex_store))
   \<and> read_obj (snd (priv_superimpose_st ex_svd 0 1 True ex_store)) 0 = ex_small
   \<and> read_obj (snd (priv_superimpose_st ex_svd 0 1 True ex_store)) 1 = ex_shifted
   \<and> read_obj (snd (priv_superimpose_st ex_svd 0 1 True ex_store)) 2 = ex_small
   \<and> coord_ref (objects (snd (priv_superimpose_st ex_svd 0 1 True ex_store)) ! 2) = 5
   \<and> length (arrays ex_store) = 2
   \<and> extends ex_store (snd (apply_superimposition_st 1 ((- 4, 0, 0), ident3, (1, 0, 0)) ex_store))
   \<and> read_obj (snd (apply_superimposition_st 1 ((- 4, 0, 0), ident3, (1, 0, 0)) ex_store)) 1 = ex_shifted"
proof -
  have v: "valid_ref ex_store 0" "valid_ref ex_store 1"
    by (simp_all add: valid_ref_def ex_store_def)
  have r: "read_obj ex_store 0 = ex_small" "read_obj ex_store 1 = ex_shifted"
    by (simp_all add: read_obj_def ex_store_def ex_defs)
  note m = inputs_not_mutated [OF v(1) v(2) v(2) ex_store_fit ex_store_apply]
  show ?thesis
    unfolding ex_store_fit ex_store_apply fst_conv snd_conv
    using m v r by (simp add: read_obj_def ex_defs) (simp add: ex_store_def)
qed

subsection \<open>Superimposing a structure on a copy of itself\<close>

text \<open>
  The covariance matrix of a centered array with itself is symmetric and positive
  semidefinite. When it is nonsingular, its singular value decomposition is forced:
  \<open>w\<close> is the transpose of \<open>v\<close>. The proof goes through the uniqueness of the positive
  semidefinite square root, written out for 3x3 arrays.
\<close>

lemma vec3_cases:
  obtains a b c where "(p::vec3) = (a, b, c)"
  by (cases p) auto

lemma psd_square_root_unique:
  fixes a b c d e f s1 s2 s3 :: real
  assumes pos: "0 < s1" "0 < s2" "0 < s3"
    and psd: "\<And>x y z. 0 \<le> a * x * x + d * y * y + f * z * z + 2 * b * x * y + 2 * c * x * z + 2 * e * y * z"
    and e11: "a * a + b * b + c * c = s1 * s1"
    and e12: "a * b + b * d + c * e = 0"
    and e13: "a * c + b * e + c * f = 0"
    and e22: "b * b + d * d + e * e = s2 * s2"
    and e23: "b * c + d * e + e * f = 0"
    and e33: "c * c + e * e + f * f = s3 * s3"
  shows "a = s1 \<and> b = 0 \<and> c = 0 \<and> d = s2 \<and> e = 0 \<and> f = s3"
proof -
  define q where "q x y z = a * x * x + d * y * y + f * z * z + 2 * b * x * y + 2 * c * x * z
      + 2 * e * y * z" for x y z
  define r where "r x y z = s1 * x * x + s2 * y * y + s3 * z * z" for x y z
  have q0: "0 \<le> q x y z" for x y z unfolding q_def by (rule psd)
  have r0: "0 \<le> r x y z" for x y z
    unfolding r_def using pos by (simp add: mult.assoc)
  have total: "(q (a - s1) b c + r (a - s1) b c) + (q b (d - s2) e + r b (d - s2) e)
      + (q c e (f - s3) + r c e (f - s3))
      = (a - s1) * (a * a + b * b + c * c - s1 * s1) + (d - s2) * (b * b + d * d + e * e - s2 * s2)
        + (f - s3) * (c * c + e * e + f * f - s3 * s3)
        + 2 * b * (a * b + b * d + c * e) + 2 * c * (a * c + b * e + c * f)
        + 2 * e * (b * c + d * e + e * f)"
    unfolding q_def r_def by (simp add: algebra_simps)
  have zero: "(q (a - s1) b c + r (a - s1) b c) + (q b (d - s2) e + r b (d - s2) e)
      + (q c e (f - s3) + r c e (f - s3)) = 0"
    unfolding total e11 e12 e13 e22 e23 e33 by simp
  have r1: "r (a - s1) b c = 0" and r2: "r b (d - s2) e = 0" and r3: "r c e (f - s3) = 0"
    using zero q0 [of "a - s1" b c] q0 [of b "d - s2" e] q0 [of c e "f - s3"]
      r0 [of "a - s1" b c] r0 [of b "d - s2" e] r0 [of c e "f - s3"]
    by linarith+
  have sumsq: "x = 0 \<and> y = 0 \<and> z = 0" if "r x y z = 0" for x y z
  proof -
    have "0 \<le> s1 * (x * x)" "0 \<le> s2 * (y * y)" "0 \<le> s3 * (z * z)"
      using pos by simp_all
    moreover have "s1 * (x * x) + s2 * (y * y) + s3 * (z * z) = 0"
      using that by (simp add: r_def mult.assoc)
    ultimately have "s1 * (x * x) = 0" "s2 * (y * y) = 0" "s3 * (z * z) = 0"
      by linarith+
    with pos show ?thesis by simp
  qed
  from sumsq [OF r1] sumsq [OF r2] sumsq [OF r3] show ?thesis by simp
qed


lemma vec_mat_assoc: "vec_mat (vec_mat x a) b = vec_mat x (mat_mul a b)"
  by (cases x rule: vec3_cases, cases a rule: mat3_cases, cases b rule: mat3_cases)
     (simp add: algebra_simps)

lemma dot3_vec_mat: "dot3 (vec_mat x m) y = dot3 x (vec_mat y (transpose3 m))"
  by (cases x rule: vec3_cases, cases y rule: vec3_cases, cases m rule: mat3_cases)
     (simp add: algebra_simps)

lemma qform_conjugate:
  "qform (mat_mul (mat_mul (transpose3 v) a) v) x = qform a (vec_mat x (transpose3 v))"
  by (simp add: qform_def vec_mat_assoc [symmetric] dot3_vec_mat [of _ v])

lemma transpose3_madd: "transpose3 (madd a b) = madd (transpose3 a) (transpose3 b)"
  by (cases a rule: mat3_cases, cases b rule: mat3_cases) simp

lemma transpose3_outer_self: "transpose3 (outer p p) = outer p p"
  by (cases p rule: vec3_cases) (simp add: mult.commute)

lemma transpose3_dot_T_self: "transpose3 (dot_T y y) = dot_T y y"
  by (induction y) (simp_all add: zero3_def transpose3_madd transpose3_outer_self)

lemma qform_madd: "qform (madd a b) x = qform a x + qform b x"
  by (cases x rule: vec3_cases, cases a rule: mat3_cases, cases b rule: mat3_cases)
     (simp add: qform_def algebra_simps)

lemma qform_outer_self: "qform (outer p p) x = dot3 p x * dot3 p x"
  by (cases x rule: vec3_cases, cases p rule: vec3_cases) (simp add: qform_def algebra_simps)

lemma qform_dot_T_self: "0 \<le> qform (dot_T y y) x"
proof (induction y)
  case Nil
  show ?case by (cases x rule: vec3_cases) (simp add: qform_def zero3_def)
next
  case (Cons p y)
  then show ?case by (simp add: qform_madd qform_outer_self)
qed

lemma transpose3_diag3: "transpose3 (diag3 s) = diag3 s"
  by (cases s rule: vec3_cases) simp

lemma diag3_cancel:
  assumes "0 < s1" "0 < s2" "0 < s3"
    and "mat_mul (diag3 (s1, s2, s3)) q = diag3 (s1, s2, s3)"
  shows "q = ident3"
  using assms by (cases q rule: mat3_cases) (simp add: ident3_def)

lemma symmetric_psd_root:
  assumes pos: "0 < s1" "0 < s2" "0 < s3"
    and sym: "transpose3 m = m"
    and psd: "\<And>x. 0 \<le> qform m x"
    and sq: "mat_mul m m = mat_mul (diag3 (s1, s2, s3)) (diag3 (s1, s2, s3))"
  shows "m = diag3 (s1, s2, s3)"
proof -
  obtain a b c b' d e c' e' f where m: "m = ((a, b, c), (b', d, e), (c', e', f))"
    by (rule mat3_cases)
  have "transpose3 ((a, b, c), (b', d, e), (c', e', f)) = ((a, b, c), (b', d, e), (c', e', f))"
    using sym unfolding m .
  note h = this
  have s: "b' = b" "c' = c" "e' = e"
    using arg_cong [OF h, of "\<lambda>t. fst (snd (fst t))"]
      arg_cong [OF h, of "\<lambda>t. snd (snd (fst t))"]
      arg_cong [OF h, of "\<lambda>t. snd (snd (fst (snd t)))"]
    by simp_all
  have p: "0 \<le> a * x * x + d * y * y + f * z * z + 2 * b * x * y + 2 * c * x * z + 2 * e * y * z"
    for x y z
    using psd [of "(x, y, z)"] by (simp add: qform_def m s algebra_simps)
  from sq have "a * a + b * b + c * c = s1 * s1" "a * b + b * d + c * e = 0"
    "a * c + b * e + c * f = 0" "b * b + d * d + e * e = s2 * s2" "b * c + d * e + e * f = 0"
    "c * c + e * e + f * f = s3 * s3"
    by (simp_all add: m s algebra_simps)
  from psd_square_root_unique [OF pos p this] show ?thesis
    by (simp add: m s)
qed


lemma svd_spec_positive:
  assumes "svd_spec c (v, (s1, s2, s3), w)" and "det3 c \<noteq> 0"
  shows "0 < s1" and "0 < s2" and "0 < s3"
proof -
  from svd_spec_det(1) [OF assms(1)] assms(2) have "s1 * s2 * s3 \<noteq> 0" by auto
  moreover from assms(1) have "s1 \<ge> s2" "s2 \<ge> s3" "s3 \<ge> 0"
    by (simp_all add: svd_spec_def)
  ultimately show "0 < s1" and "0 < s2" and "0 < s3" by auto
qed

lemma svd_of_symmetric_psd:
  assumes spec: "svd_spec c (v, s, w)"
    and sym: "transpose3 c = c"
    and psd: "\<And>x. 0 \<le> qform c x"
    and det: "det3 c \<noteq> 0"
  shows "mat_mul v w = ident3"
proof -
  obtain s1 s2 s3 where s: "s = (s1, s2, s3)" by (rule vec3_cases)
  note spec' = spec [unfolded s]
  note pos = svd_spec_positive [OF spec' det]
  define d where "d = diag3 (s1, s2, s3)"
  have dsym: "transpose3 d = d" by (simp add: d_def)
  from spec' have ov: "mat_mul v (transpose3 v) = ident3" "mat_mul (transpose3 v) v = ident3"
    and ow: "orthogonal3 w" and ov': "orthogonal3 v"
    and c: "c = mat_mul (mat_mul v d) w"
    by (simp_all add: svd_spec_def orthogonal3_def d_def)
  define q where "q = mat_mul w v"
  define m where "m = mat_mul (mat_mul (transpose3 v) c) v"
  have oq: "mat_mul q (transpose3 q) = ident3"
    using orthogonal3_mat_mul [OF ow ov'] by (simp add: q_def orthogonal3_def)
  have "m = mat_mul (mat_mul (transpose3 v) v) (mat_mul d (mat_mul w v))"
    unfolding m_def c by (simp only: mat_mul_assoc)
  then have mq: "m = mat_mul d q"
    by (simp add: ov q_def)
  have msym: "transpose3 m = m"
    unfolding m_def by (simp add: transpose3_mat_mul sym mat_mul_assoc)
  have mpsd: "0 \<le> qform m x" for x
    unfolding m_def qform_conjugate by (rule psd)
  have "mat_mul m (transpose3 m) = mat_mul d (mat_mul (mat_mul q (transpose3 q)) d)"
    unfolding mq by (simp only: transpose3_mat_mul dsym mat_mul_assoc)
  then have msq: "mat_mul m m = mat_mul d d"
    by (simp add: msym oq)
  from symmetric_psd_root [OF pos msym mpsd msq [unfolded d_def]] have "m = d"
    by (simp add: d_def)
  with mq have "mat_mul (diag3 (s1, s2, s3)) q = diag3 (s1, s2, s3)"
    by (simp only: d_def)
  from diag3_cancel [OF pos this] have wv: "mat_mul w v = ident3" by (simp add: q_def)
  have "mat_mul (mat_mul w v) (transpose3 v) = mat_mul w (mat_mul v (transpose3 v))"
    by (rule mat_mul_assoc)
  with wv ov(1) have "w = transpose3 v" by simp
  with ov(1) show ?thesis by simp
qed


lemma vec_mat_ident3: "vec_mat p ident3 = p"
  by (cases p rule: vec3_cases) (simp add: ident3_def)

lemma vadd_vsub_cancel: "vadd (vsub p c) c = p"
  by (cases p rule: vec3_cases, cases c rule: vec3_cases) simp

text \<open>
  The nonsingular case of superimposing a structure on a copy of itself: when \<open>fixed\<close>
  has the coordinates and atom names of \<open>mobile\<close>, the decomposition routine meets
  \<open>svd_spec\<close> at the covariance matrix and that matrix is nonsingular, the call returns
  the identity as rotation and \<open>mobile\<close> itself as fitted structure. With a singular
  covariance matrix \<open>svd_spec\<close> leaves the singular vectors of the zero singular values
  open, and the result is decided by what \<open>np.linalg.svd\<close> returns there.
\<close>

lemma self_alignment_nonsingular:
  assumes same: "coord fixed = coord mobile" "atom_name fixed = atom_name mobile"
    and cen: "centering fixed mobile ca_only = Inr (mob_centroid, fix_centroid, y, x)"
    and spec: "svd_spec (dot_T y x) (svd (dot_T y x))"
    and det: "det3 (dot_T y x) \<noteq> 0"
  shows "priv_superimpose svd fixed mobile ca_only
    = Inr (mobile, (vneg mob_centroid, ident3, fix_centroid))"
proof -
  have sel: "select_coords fixed mobile ca_only = Inr (ms, fs) \<Longrightarrow> fs = ms" for ms fs
    by (auto simp: select_coords_def ca_mask_def same split: if_splits sum.splits)
  from cen have xy: "x = y" and cc: "fix_centroid = mob_centroid"
    and mc: "mob_centroid = centroid mobile"
    by (auto simp: centering_def Let_def centroid_def same dest: sel split: sum.splits if_splits)
  obtain v s w where d: "svd (dot_T y y) = (v, s, w)"
    by (cases "svd (dot_T y y)") auto
  have vw: "mat_mul v w = ident3"
    using spec det unfolding xy d
    by (rule svd_of_symmetric_psd [OF _ transpose3_dot_T_self qform_dot_T_self])
  then have "det3 v * det3 w = 1"
    by (simp add: det3_mat_mul [symmetric] det3_ident3)
  with d vw have k: "kabsch svd y y = Inr ident3"
    by (simp add: kabsch_def)
  have "map (\<lambda>p. vadd (vec_mat (vsub p mob_centroid) ident3) mob_centroid) (coord mobile)
      = coord mobile"
    by (simp add: vec_mat_ident3 vadd_vsub_cancel)
  then show ?thesis
    using cen k unfolding xy cc
    by (simp add: priv_superimpose_def copy_def Let_def sub_rows_def dot_rows_def add_rows_def
        comp_def)
qed

lemma ex_octa_centering:
  "centering ex_octa ex_octa True = Inr ((0, 0, 0), (0, 0, 0), coord ex_octa, coord ex_octa)"
  by (simp add: model_defs ex_defs)

lemma ex_octa_cov: "dot_T (coord ex_octa) (coord ex_octa) = ((18, 0, 0), (0, 8, 0), (0, 0, 2))"
  by (simp add: ex_defs zero3_def)

lemma self_alignment_nonsingular_example:
  "centering ex_octa ex_octa True = Inr ((0, 0, 0), (0, 0, 0), coord ex_octa, coord ex_octa)
   \<and> svd_spec (dot_T (coord ex_octa) (coord ex_octa)) (ex_svd (dot_T (coord ex_octa) (coord ex_octa)))
   \<and> det3 (dot_T (coord ex_octa) (coord ex_octa)) = 288
   \<and> priv_superimpose ex_svd ex_octa ex_octa True = Inr (ex_octa, ((0, 0, 0), ident3, (0, 0, 0)))"
proof -
  have sp: "svd_spec (dot_T (coord ex_octa) (coord ex_octa)) (ex_svd (dot_T (coord ex_octa) (coord ex_octa)))"
    by (simp add: ex_octa_cov svd_spec_def orthogonal3_def ex_svd_def ident3_def)
  have dt: "det3 (dot_T (coord ex_octa) (coord ex_octa)) = 288"
    by (simp add: ex_octa_cov)
  then have dt': "det3 (dot_T (coord ex_octa) (coord ex_octa)) \<noteq> 0" by simp
  from self_alignment_nonsingular [of ex_octa ex_octa True _ _ _ _ ex_svd,
      OF refl refl ex_octa_centering sp dt'] ex_octa_centering sp dt
  show ?thesis by simp
qed

end
